theory Spec2Isabelle
  imports Main "HOL-Library.Word" "HOL-Library.Sublist"
begin

section \<open>JavaScript strings\<close>

text \<open>
  A JavaScript string is a sequence of UTF-16 code units.  The widget in
  \<^verbatim>\<open>frontend/chat.js\<close> uses characters outside ASCII in its literals and
  its regular expression treats U+2028 and U+2029 as line terminators, so strings
  are lists of 16-bit words; \<open>js\<close> embeds an ASCII literal.
\<close>

type_synonym code_unit = "16 word"
type_synonym jstring = "code_unit list"

definition js :: "string \<Rightarrow> jstring" where
  "js s = map of_char s"

definition is_line_terminator :: "code_unit \<Rightarrow> bool" where
  \<comment> \<open>ECMAScript LineTerminator: LF, CR, LS, PS; the characters \<open>.\<close> does not match.\<close>
  "is_line_terminator c \<longleftrightarrow> c = 0x0A \<or> c = 0x0D \<or> c = 0x2028 \<or> c = 0x2029"

definition is_white_space :: "code_unit \<Rightarrow> bool" where
  \<comment> \<open>ECMAScript WhiteSpace: TAB, VT, FF, ZWNBSP and the code points of category Zs.\<close>
  "is_white_space c \<longleftrightarrow>
     c = 0x09 \<or> c = 0x0B \<or> c = 0x0C \<or> c = 0x20 \<or> c = 0xA0 \<or> c = 0x1680 \<or>
     (0x2000 \<le> c \<and> c \<le> 0x200A) \<or> c = 0x202F \<or> c = 0x205F \<or> c = 0x3000 \<or> c = 0xFEFF"

definition is_trimmed :: "code_unit \<Rightarrow> bool" where
  \<comment> \<open>what \<^verbatim>\<open>String.prototype.trim\<close> strips: white space and line terminators\<close>
  "is_trimmed c \<longleftrightarrow> is_white_space c \<or> is_line_terminator c"

definition trim :: "jstring \<Rightarrow> jstring" where
  "trim s = rev (dropWhile is_trimmed (rev (dropWhile is_trimmed s)))"


section \<open>The Markdown post-processor: wrapping code blocks\<close>

text \<open>
  \<^verbatim>\<open>addAIMessage\<close> rewrites the converter's HTML with
  \<^verbatim>\<open>html.replace(/<pre><code(?: class="language-(.*?)")?>([\s\S]*?)<\/code><\/pre>/g, ...)\<close>.
  The functions below follow the backtracking matcher piece by piece.  Each returns
  the text captured by group 2 and the input that remains after the match.
\<close>

definition code_open :: jstring where
  \<open>code_open = js ''<pre><code''\<close>

definition lang_open :: jstring where
  \<open>lang_open = js '' class="language-''\<close>

definition lang_close :: jstring where
  \<comment> \<open>the quote that ends the optional group, and the \<^verbatim>\<open>>\<close> after it\<close>
  \<open>lang_close = js ''">''\<close>

definition code_close :: jstring where
  \<open>code_close = js ''</code></pre>''\<close>

fun match_body :: "jstring \<Rightarrow> (jstring \<times> jstring) option" where
  \<comment> \<open>\<^verbatim>\<open>([\s\S]*?)<\/code><\/pre>\<close>: the lazy star tries the closing tags first and
      takes one more code unit, of any kind, only when they do not match here.\<close>
  "match_body [] = None"
| "match_body (c # cs) =
     (if prefix code_close (c # cs) then Some ([], drop (length code_close) (c # cs))
      else map_option (\<lambda>(code, rest). (c # code, rest)) (match_body cs))"

fun match_lang :: "jstring \<Rightarrow> (jstring \<times> jstring) option" where
  \<comment> \<open>\<^verbatim>\<open>(.*?)"\<close> and the rest of the pattern: the lazy star first tries to go on
      with the quote, \<^verbatim>\<open>>\<close> and the body; when that fails it takes one more code
      unit, unless that is a line terminator.\<close>
  "match_lang [] = None"
| "match_lang (c # cs) =
     (case (if prefix lang_close (c # cs) then match_body (drop (length lang_close) (c # cs))
            else None) of
        Some m \<Rightarrow> Some m
      | None \<Rightarrow> if is_line_terminator c then None else match_lang cs)"

definition match_at :: "jstring \<Rightarrow> (jstring \<times> jstring) option" where
  \<comment> \<open>One attempt of the whole pattern at the start of \<open>s\<close>.  The optional group is
      greedy: the alternative with the class attribute is tried first, the one
      without it only when the first fails.\<close>
  "match_at s =
     (if prefix code_open s then
        let r = drop (length code_open) s in
        (case (if prefix lang_open r then match_lang (drop (length lang_open) r) else None) of
           Some m \<Rightarrow> Some m
         | None \<Rightarrow> (case r of [] \<Rightarrow> None
                    | c # r' \<Rightarrow> if c = 0x3E then match_body r' else None))
      else None)"

definition code_wrapper :: "jstring \<Rightarrow> jstring" where
  \<comment> \<open>the replacer's template literal, with its line breaks and indentation\<close>
  \<open>code_wrapper code =
     [0x0A] @ js ''                <div class="code-wrapper">'' @
     [0x0A] @ js ''                    <button class="copy-btn">copy</button>'' @
     [0x0A] @ js ''                    <pre><code>'' @ code @ js ''</code></pre>'' @
     [0x0A] @ js ''                </div>'' @
     [0x0A] @ js ''            ''\<close>

lemma match_body_decomp:
  "match_body s = Some (code, rest) \<Longrightarrow> s = code @ code_close @ rest"
proof (induction s arbitrary: code)
  case Nil
  then show ?case by simp
next
  case (Cons c cs)
  show ?case
  proof (cases "prefix code_close (c # cs)")
    case True
    with Cons.prems have "code = []" "rest = drop (length code_close) (c # cs)" by auto
    moreover from True have "c # cs = code_close @ drop (length code_close) (c # cs)"
      by (metis append_eq_conv_conj prefixE)
    ultimately show ?thesis by simp
  next
    case False
    with Cons.prems obtain code' where "match_body cs = Some (code', rest)" "code = c # code'"
      by auto
    with Cons.IH show ?thesis by simp
  qed
qed

lemma match_body_shorter:
  "match_body s = Some (code, rest) \<Longrightarrow> length rest < length s"
  by (drule match_body_decomp) (simp add: code_close_def js_def)

lemma match_lang_shorter:
  "match_lang s = Some (code, rest) \<Longrightarrow> length rest < length s"
proof (induction s)
  case Nil
  then show ?case by simp
next
  case (Cons c cs)
  then show ?case
    by (fastforce split: option.splits if_splits dest: match_body_shorter)
qed

lemma match_at_shorter:
  "match_at s = Some (code, rest) \<Longrightarrow> length rest < length s"
proof -
  assume m: "match_at s = Some (code, rest)"
  define r where "r = drop (length code_open) s"
  have le: "length r \<le> length s" by (simp add: r_def)
  from m have "match_lang (drop (length lang_open) r) = Some (code, rest) \<or>
      (\<exists>r'. r = 0x3E # r' \<and> match_body r' = Some (code, rest))"
    unfolding match_at_def Let_def r_def [symmetric]
    by (auto split: option.splits if_splits list.splits)
  then show ?thesis
  proof
    assume "match_lang (drop (length lang_open) r) = Some (code, rest)"
    then have "length rest < length (drop (length lang_open) r)" by (rule match_lang_shorter)
    with le show ?thesis by simp
  next
    assume "\<exists>r'. r = 0x3E # r' \<and> match_body r' = Some (code, rest)"
    then obtain r' where "r = 0x3E # r'" "match_body r' = Some (code, rest)" by blast
    with match_body_shorter [of r' code rest] le show ?thesis by simp
  qed
qed

function wrap_code_blocks :: "jstring \<Rightarrow> jstring" where
  \<comment> \<open>the global replace: scan from the left; at a match emit the wrapper and go on
      after the match, otherwise copy one code unit and try at the next one\<close>
  "wrap_code_blocks [] = []"
| "wrap_code_blocks (c # cs) =
     (case match_at (c # cs) of
        Some (code, rest) \<Rightarrow> code_wrapper code @ wrap_code_blocks rest
      | None \<Rightarrow> c # wrap_code_blocks cs)"
  by pat_completeness auto
termination
  by (relation "measure length") (auto dest: match_at_shorter)


subsection \<open>HTML documents with code blocks\<close>

text \<open>
  The converter's output, seen as text interleaved with code blocks: the form in
  which the post-processor expects it.  \<open>doc_wrapped\<close> is the same document with
  every block replaced by the wrapper around its content.
\<close>

record code_block =
  block_lang :: "jstring option"
  block_code :: jstring

definition block_html :: "code_block \<Rightarrow> jstring" where
  \<open>block_html b =
     code_open @ (case block_lang b of None \<Rightarrow> [] | Some l \<Rightarrow> lang_open @ l @ js ''"'') @
     js ''>'' @ block_code b @ code_close\<close>

fun doc_html :: "jstring \<Rightarrow> (code_block \<times> jstring) list \<Rightarrow> jstring" where
  "doc_html t [] = t"
| "doc_html t ((b, t') # rest) = t @ block_html b @ doc_html t' rest"

fun doc_wrapped :: "jstring \<Rightarrow> (code_block \<times> jstring) list \<Rightarrow> jstring" where
  "doc_wrapped t [] = t"
| "doc_wrapped t ((b, t') # rest) = t @ code_wrapper (block_code b) @ doc_wrapped t' rest"

definition well_formed_block :: "code_block \<Rightarrow> bool" where
  "well_formed_block b \<longleftrightarrow>
     (case block_lang b of
        None \<Rightarrow> True
      | Some l \<Rightarrow> list_all (\<lambda>c. \<not> is_line_terminator c \<and> c \<noteq> 0x22) l)
     \<and> \<not> sublist code_close (block_code b)"

definition well_formed_doc :: "jstring \<Rightarrow> (code_block \<times> jstring) list \<Rightarrow> bool" where
  "well_formed_doc t bs \<longleftrightarrow>
     \<not> sublist code_open t
     \<and> list_all (\<lambda>(b, t'). well_formed_block b \<and> \<not> sublist code_open t') bs"

fun occurrences :: "jstring \<Rightarrow> jstring \<Rightarrow> nat" where
  "occurrences p [] = 0"
| "occurrences p (c # cs) = (if prefix p (c # cs) then 1 else 0) + occurrences p cs"

definition copy_button_html :: jstring where
  \<open>copy_button_html = js ''<button class="copy-btn">copy</button>''\<close>


text \<open>
  What the specification asks of the replacement: a wrapper element that holds a
  copy button labelled \<^verbatim>\<open>copy\<close> and then the \<^verbatim>\<open><pre><code>\<close> element, without
  language class, around the block's content.  \<open>laid_out\<close> reads a string as these
  elements in this order, with nothing but white space around and between them.
\<close>

definition spec_wrapper_elements :: "jstring \<Rightarrow> jstring list" where
  \<open>spec_wrapper_elements code =
     [js ''<div class="code-wrapper">'',
      js ''<button class="copy-btn">copy</button>'',
      js ''<pre><code>'' @ code @ js ''</code></pre>'',
      js ''</div>'']\<close>

definition is_layout :: "code_unit \<Rightarrow> bool" where
  \<comment> \<open>HTML white space: space, tab, line feed, form feed, carriage return\<close>
  "is_layout c \<longleftrightarrow> c = 0x20 \<or> c = 0x09 \<or> c = 0x0A \<or> c = 0x0C \<or> c = 0x0D"

fun strip_prefix :: "jstring \<Rightarrow> jstring \<Rightarrow> jstring option" where
  "strip_prefix [] h = Some h"
| "strip_prefix (p # ps) [] = None"
| "strip_prefix (p # ps) (c # cs) = (if p = c then strip_prefix ps cs else None)"

fun laid_out :: "jstring list \<Rightarrow> jstring \<Rightarrow> bool" where
  "laid_out [] h = list_all is_layout h"
| "laid_out (p # ps) h =
     (case strip_prefix p (dropWhile is_layout h) of
        None \<Rightarrow> False
      | Some rest \<Rightarrow> laid_out ps rest)"

definition plain_code_open :: jstring where
  \<open>plain_code_open = js ''<pre><code>''\<close>

fun first_code_text :: "jstring \<Rightarrow> jstring option" where
  \<comment> \<open>the content of the first \<^verbatim>\<open><pre><code>\<close> element without class in a string\<close>
  "first_code_text [] = None"
| "first_code_text (c # cs) =
     (if prefix plain_code_open (c # cs)
      then map_option fst (match_body (drop (length plain_code_open) (c # cs)))
      else first_code_text cs)"

definition fenced_reply :: jstring where
  \<comment> \<open>Markdown: one fenced code block, marked as Python, with the line \<^verbatim>\<open>print(1)\<close>\<close>
  \<open>fenced_reply = js ''```python'' @ [0x0A] @ js ''print(1)'' @ [0x0A] @ js ''```''\<close>

definition python_lf_block :: code_block where
  \<comment> \<open>the code block whose content is the line \<^verbatim>\<open>print(1)\<close> with its line feed\<close>
  "python_lf_block = \<lparr>block_lang = Some (js ''python''), block_code = js ''print(1)'' @ [0x0A]\<rparr>"


section \<open>Values parsed from the backend's reply\<close>

text \<open>
  \<^verbatim>\<open>response.json()\<close> yields any JSON value.  A number is kept as the two things
  a program that never computes with it can observe: whether it is non-zero and its
  decimal text (\<^verbatim>\<open>ToString\<close>).  An object is the list of its own properties, each
  name once.  \<open>JUndefined\<close> is the result of reading a property an object does not
  have.
\<close>

datatype jsval =
    JUndefined
  | JNull
  | JBool bool
  | JNum bool jstring
  | JStr jstring
  | JArr "jsval list"
  | JObj "(jstring \<times> jsval) list"

datatype js_error =
    FetchRejected   \<comment> \<open>the promise of \<^verbatim>\<open>fetch\<close> rejects: no response\<close>
  | BodySyntaxError \<comment> \<open>\<^verbatim>\<open>response.json()\<close> rejects: the body is not JSON\<close>
  | TypeError       \<comment> \<open>a property read on \<^verbatim>\<open>null\<close> or \<^verbatim>\<open>undefined\<close>, or an
                        object that cannot be converted to a string\<close>
  | ConverterError  \<comment> \<open>\<^verbatim>\<open>marked.parse\<close> throws\<close>

fun to_boolean :: "jsval \<Rightarrow> bool" where
  "to_boolean JUndefined = False"
| "to_boolean JNull = False"
| "to_boolean (JBool b) = b"
| "to_boolean (JNum nonzero _) = nonzero"
| "to_boolean (JStr s) = (s \<noteq> [])"
| "to_boolean (JArr _) = True"
| "to_boolean (JObj _) = True"

fun to_string :: "jsval \<Rightarrow> js_error + jstring"
  and join_elements :: "jsval list \<Rightarrow> js_error + jstring" where
  \<comment> \<open>What a template literal substitutes for \<^verbatim>\<open>${v}\<close>: \<^verbatim>\<open>ToString\<close>.  A parsed
      object is converted by \<^verbatim>\<open>Object.prototype.toString\<close>, unless it has an own
      property \<^verbatim>\<open>toString\<close>: that value, parsed from JSON, is not callable,
      \<^verbatim>\<open>valueOf\<close> returns the object itself, and the conversion throws.  An array is
      converted by \<^verbatim>\<open>join\<close>, which converts its elements from the left, \<^verbatim>\<open>null\<close>
      to the empty string.\<close>
  "to_string JUndefined = Inr (js ''undefined'')"
| "to_string JNull = Inr (js ''null'')"
| "to_string (JBool b) = Inr (if b then js ''true'' else js ''false'')"
| "to_string (JNum _ text) = Inr text"
| "to_string (JStr s) = Inr s"
| "to_string (JArr vs) = join_elements vs"
| "to_string (JObj props) =
     (if map_of props (js ''toString'') = None then Inr (js ''[object Object]'')
      else Inl TypeError)"
| "join_elements [] = Inr []"
| "join_elements (v # vs) =
     (case (if v = JUndefined \<or> v = JNull then Inr [] else to_string v) of
        Inl e \<Rightarrow> Inl e
      | Inr s \<Rightarrow>
          if vs = [] then Inr s
          else (case join_elements vs of
                  Inl e \<Rightarrow> Inl e
                | Inr t \<Rightarrow> Inr (s @ js '','' @ t)))"

fun get_prop :: "jsval \<Rightarrow> jstring \<Rightarrow> js_error + jsval" where
  \<comment> \<open>\<^verbatim>\<open>v.name\<close> for a name that no built-in prototype defines, as are the two names
      read by \<^verbatim>\<open>sendMessage\<close>: only an object's own properties can answer.\<close>
  "get_prop JUndefined name = Inl TypeError"
| "get_prop JNull name = Inl TypeError"
| "get_prop (JObj props) name =
     Inr (case map_of props name of None \<Rightarrow> JUndefined | Some v \<Rightarrow> v)"
| "get_prop _ name = Inr JUndefined"


section \<open>The page: transcript, controls and platform calls\<close>

datatype node_class = MsgUser | MsgSystem | MsgAI

datatype content =
    InnerText jstring   \<comment> \<open>assigned through \<^verbatim>\<open>innerText\<close>: literal text\<close>
  | InnerHTML jstring   \<comment> \<open>assigned through \<^verbatim>\<open>innerHTML\<close>: parsed as HTML\<close>

record parsed_button =
  pb_label :: jstring           \<comment> \<open>the button's text\<close>
  pb_bound :: "jstring option"  \<comment> \<open>a \<^verbatim>\<open>data-bound\<close> attribute written in the HTML, if any\<close>
  pb_code :: "jstring option"   \<comment> \<open>\<^verbatim>\<open>innerText\<close> of the first \<^verbatim>\<open>code\<close> element under the
                                    button's parent; \<open>None\<close> when there is none\<close>

record button =
  label :: jstring              \<comment> \<open>\<^verbatim>\<open>btn.innerText\<close>\<close>
  bound :: "jstring option"     \<comment> \<open>\<^verbatim>\<open>btn.dataset.bound\<close>; \<open>None\<close> is \<^verbatim>\<open>undefined\<close>\<close>
  bindings :: nat               \<comment> \<open>how many times \<^verbatim>\<open>activateCopyButtons\<close> has assigned
                                    \<^verbatim>\<open>btn.onclick\<close>; the handler is present when positive\<close>
  code_text :: "jstring option"

record node =
  nid :: nat                    \<comment> \<open>the element's identity\<close>
  cls :: node_class
  content :: content
  buttons :: "button list"      \<comment> \<open>its descendants of class \<^verbatim>\<open>copy-btn\<close>, in document order\<close>

record env =
  marked :: "jstring \<Rightarrow> jstring"
    \<comment> \<open>\<^verbatim>\<open>marked.parse\<close> on a string: the external Markdown converter\<close>
  marked_nonstring :: "jsval \<Rightarrow> jstring option"
    \<comment> \<open>\<^verbatim>\<open>marked.parse\<close> on a value that is not a string; \<open>None\<close> when it throws\<close>
  copy_buttons :: "jstring \<Rightarrow> parsed_button list"
    \<comment> \<open>the elements of class \<^verbatim>\<open>copy-btn\<close> that the browser's HTML parser builds
        from a string assigned to \<^verbatim>\<open>innerHTML\<close>\<close>

record payload =
  message :: jstring
  model :: jstring
  prev_model :: jstring

record pending_call =
  \<comment> \<open>a call of \<^verbatim>\<open>sendMessage\<close> suspended at its \<^verbatim>\<open>await\<close>: the request it sent and
      the locals it will use when it resumes\<close>
  sent :: payload
  typingBubble :: nat
  call_model :: jstring

datatype effect =
    Appended nat          \<comment> \<open>\<^verbatim>\<open>chatContainer.appendChild\<close> of the element with this identity\<close>
  | Removed nat           \<comment> \<open>\<^verbatim>\<open>.remove()\<close> called on the element with this identity\<close>
  | Scrolled
  | ClickSound            \<comment> \<open>one call of \<^verbatim>\<open>playClick\<close>\<close>
  | Fetch payload         \<comment> \<open>\<^verbatim>\<open>fetch\<close> of the chat endpoint, POST, with this JSON body\<close>
  | LastModelSet jstring
  | ConsoleError js_error
  | ClipboardWrite jstring
  | TimerSet nat          \<comment> \<open>\<^verbatim>\<open>setTimeout\<close> with this delay in milliseconds\<close>

type_synonym button_ref = "nat \<times> nat"  \<comment> \<open>element identity, index among its copy buttons\<close>

record widget =
  transcript :: "node list"       \<comment> \<open>the children of \<^verbatim>\<open>chatContainer\<close>\<close>
  input_value :: jstring          \<comment> \<open>\<^verbatim>\<open>inputBox.value\<close>\<close>
  selected_model :: jstring       \<comment> \<open>\<^verbatim>\<open>modelSelect.value\<close>\<close>
  lastModelUsed :: jstring
  in_flight :: "pending_call list"
  clipboard_pending :: "(button_ref \<times> jstring) list"
    \<comment> \<open>promises of \<^verbatim>\<open>writeText\<close> not yet settled, with the button of the click\<close>
  timers :: "(nat \<times> button_ref) list"
    \<comment> \<open>timeouts not yet fired: delay and the button whose label they reset\<close>
  next_id :: nat                  \<comment> \<open>identity of the next element created\<close>
  effects :: "effect list"        \<comment> \<open>calls made so far, oldest first\<close>

definition emit :: "effect \<Rightarrow> widget \<Rightarrow> widget" where
  "emit e w = w\<lparr>effects := effects w @ [e]\<rparr>"

definition scrollToBottom :: "widget \<Rightarrow> widget" where
  "scrollToBottom w = emit Scrolled w"

definition new_button :: "parsed_button \<Rightarrow> button" where
  "new_button pb =
     \<lparr>label = pb_label pb, bound = pb_bound pb, bindings = 0, code_text = pb_code pb\<rparr>"

definition html_node :: "env \<Rightarrow> nat \<Rightarrow> node_class \<Rightarrow> jstring \<Rightarrow> node" where
  \<comment> \<open>\<^verbatim>\<open>createElement("div")\<close>, \<^verbatim>\<open>className\<close> and \<^verbatim>\<open>innerHTML\<close> assigned\<close>
  "html_node E i c html =
     \<lparr>nid = i, cls = c, content = InnerHTML html,
      buttons = map new_button (copy_buttons E html)\<rparr>"

definition text_node :: "nat \<Rightarrow> node_class \<Rightarrow> jstring \<Rightarrow> node" where
  "text_node i c text = \<lparr>nid = i, cls = c, content = InnerText text, buttons = []\<rparr>"

definition appendChild :: "node \<Rightarrow> widget \<Rightarrow> widget" where
  "appendChild n w =
     emit (Appended (nid n)) (w\<lparr>transcript := transcript w @ [n], next_id := Suc (next_id w)\<rparr>)"

definition remove_node :: "nat \<Rightarrow> widget \<Rightarrow> widget" where
  \<comment> \<open>\<^verbatim>\<open>element.remove()\<close>: nothing changes when the element is no longer a child\<close>
  "remove_node i w =
     emit (Removed i) (w\<lparr>transcript := filter (\<lambda>n. nid n \<noteq> i) (transcript w)\<rparr>)"

definition addUserMessage :: "jstring \<Rightarrow> widget \<Rightarrow> widget" where
  "addUserMessage text w = scrollToBottom (appendChild (text_node (next_id w) MsgUser text) w)"

definition loader_html :: jstring where
  \<open>loader_html =
     [0x0A] @ js ''            <div class="loading-bar">'' @
     [0x0A] @ js ''                <div class="loading-fill"></div>'' @
     [0x0A] @ js ''            </div>'' @
     [0x0A] @ js ''        ''\<close>

definition system_note_html :: "jstring \<Rightarrow> bool \<Rightarrow> jstring" where
  "system_note_html text withLoader =
     js ''<i>'' @ text @ js ''</i>'' @ (if withLoader then loader_html else [])"

definition addSystemNote_str :: "env \<Rightarrow> jstring \<Rightarrow> bool \<Rightarrow> widget \<Rightarrow> widget" where
  \<comment> \<open>\<^verbatim>\<open>addSystemNote\<close> called with a string, which the template literal takes as it is\<close>
  "addSystemNote_str E text withLoader w =
     scrollToBottom
       (appendChild (html_node E (next_id w) MsgSystem (system_note_html text withLoader)) w)"

definition addSystemNote :: "env \<Rightarrow> jsval \<Rightarrow> bool \<Rightarrow> widget \<Rightarrow> js_error + widget" where
  \<comment> \<open>\<^verbatim>\<open>addSystemNote\<close> called with any value: the template literal converts it to a
      string first, and throws, before anything is appended, when it cannot\<close>
  "addSystemNote E text withLoader w =
     (case to_string text of
        Inl e \<Rightarrow> Inl e
      | Inr s \<Rightarrow> Inr (addSystemNote_str E s withLoader w))"

definition is_bound :: "button \<Rightarrow> bool" where
  \<comment> \<open>\<^verbatim>\<open>btn.dataset.bound\<close> is truthy: defined and not the empty string\<close>
  "is_bound b \<longleftrightarrow> bound b \<noteq> None \<and> bound b \<noteq> Some []"

definition bind_button :: "button \<Rightarrow> button" where
  \<comment> \<open>the body of the \<^verbatim>\<open>forEach\<close>: a truthy \<^verbatim>\<open>dataset.bound\<close> returns at once\<close>
  "bind_button b =
     (if is_bound b then b
      else b\<lparr>bound := Some (js ''1''), bindings := Suc (bindings b)\<rparr>)"

definition bind_node :: "node \<Rightarrow> node" where
  "bind_node n = n\<lparr>buttons := map bind_button (buttons n)\<rparr>"

definition activateCopyButtons :: "widget \<Rightarrow> widget" where
  "activateCopyButtons w = w\<lparr>transcript := map bind_node (transcript w)\<rparr>"

definition render_reply :: "env \<Rightarrow> jstring \<Rightarrow> jstring" where
  \<comment> \<open>the Markdown post-processor on a string\<close>
  "render_reply E text = wrap_code_blocks (marked E text)"

definition show_ai_html :: "env \<Rightarrow> jstring \<Rightarrow> widget \<Rightarrow> widget" where
  \<comment> \<open>\<^verbatim>\<open>addAIMessage\<close> from the \<^verbatim>\<open>replace\<close> on\<close>
  "show_ai_html E html0 w =
     scrollToBottom
       (activateCopyButtons
          (appendChild (html_node E (next_id w) MsgAI (wrap_code_blocks html0)) w))"

definition marked_parse :: "env \<Rightarrow> jsval \<Rightarrow> jstring option" where
  \<comment> \<open>\<^verbatim>\<open>marked.parse(text)\<close> on any value; \<open>None\<close> when it throws\<close>
  "marked_parse E text = (case text of JStr s \<Rightarrow> Some (marked E s) | _ \<Rightarrow> marked_nonstring E text)"

definition addAIMessage :: "env \<Rightarrow> jsval \<Rightarrow> widget \<Rightarrow> js_error + widget" where
  "addAIMessage E text w =
     (case marked_parse E text of
        None \<Rightarrow> Inl ConverterError
      | Some html0 \<Rightarrow> Inr (show_ai_html E html0 w))"

definition addAIMessage_str :: "env \<Rightarrow> jstring \<Rightarrow> widget \<Rightarrow> widget" where
  \<comment> \<open>\<^verbatim>\<open>addAIMessage\<close> called with a string, where the converter returns\<close>
  "addAIMessage_str E s w = show_ai_html E (marked E s) w"

definition typing_html :: jstring where
  \<open>typing_html =
     [0x0A] @ js ''        <div class="typing">'' @
     [0x0A] @ js ''            <span class="robot-blink">'' @ [0xD83E, 0xDD16] @ js ''</span>'' @
     [0x0A] @ js ''            <div class="dot"></div>'' @
     [0x0A] @ js ''            <div class="dot"></div>'' @
     [0x0A] @ js ''            <div class="dot"></div>'' @
     [0x0A] @ js ''        </div>'' @
     [0x0A] @ js ''    ''\<close>

definition addTypingBubble :: "env \<Rightarrow> widget \<Rightarrow> nat \<times> widget" where
  \<comment> \<open>returns the bubble, here its identity\<close>
  "addTypingBubble E w =
     (next_id w, scrollToBottom (appendChild (html_node E (next_id w) MsgAI typing_html) w))"

definition playClick :: "widget \<Rightarrow> widget" where
  \<comment> \<open>Every failure of the playback is swallowed, by the \<^verbatim>\<open>try\<close> and by the
      \<^verbatim>\<open>.catch\<close> on the promise: the caller sees the same outcome whatever happens.\<close>
  "playClick w = emit ClickSound w"


section \<open>The request orchestrator\<close>

definition sendMessage :: "env \<Rightarrow> widget \<Rightarrow> widget" where
  \<comment> \<open>\<^verbatim>\<open>sendMessage\<close> up to its first \<^verbatim>\<open>await\<close>: everything that runs inside the
      click or key event\<close>
  "sendMessage E w =
     (let text = trim (input_value w) in
      if text = [] then w
      else
        let w1 = addUserMessage text w;
            w2 = w1\<lparr>input_value := []\<rparr>;
            (bubble, w3) = addTypingBubble E w2;
            m = selected_model w3;
            body = \<lparr>message = text, model = m, prev_model = lastModelUsed w3\<rparr>
        in emit (Fetch body)
             (w3\<lparr>in_flight := in_flight w3 @
                    [\<lparr>sent = body, typingBubble = bubble, call_model = m\<rparr>]\<rparr>))"

datatype outcome =
    Rejected                       \<comment> \<open>\<^verbatim>\<open>fetch\<close> rejects\<close>
  | Responded nat "jsval option"   \<comment> \<open>a response with this HTTP status; the body as
                                       \<^verbatim>\<open>response.json()\<close> parses it, \<open>None\<close> when it rejects\<close>

definition error_text :: jstring where
  "error_text = [0x274C] @ js '' Could not connect to backend.''"

definition try_block :: "env \<Rightarrow> pending_call \<Rightarrow> outcome \<Rightarrow> widget \<Rightarrow> js_error option \<times> widget" where
  \<comment> \<open>The \<^verbatim>\<open>try\<close> block from the first \<^verbatim>\<open>await\<close> on.  Nothing runs between the two
      awaits, so both are settled at once.  The result holds the exception thrown,
      if any, and the state reached by then.\<close>
  "try_block E call out w =
     (case out of
        Rejected \<Rightarrow> (Some FetchRejected, w)
      | Responded status None \<Rightarrow> (Some BodySyntaxError, w)
      | Responded status (Some data) \<Rightarrow>
          let w1 = remove_node (typingBubble call) w in
          (case get_prop data (js ''system_note'') of
             Inl e \<Rightarrow> (Some e, w1)
           | Inr note \<Rightarrow>
               (case (if to_boolean note then addSystemNote E note True (playClick w1)
                      else Inr w1) of
                  Inl e \<Rightarrow> (Some e, playClick w1)
                | Inr w2 \<Rightarrow>
                    let w3 = emit (LastModelSet (call_model call))
                               (w2\<lparr>lastModelUsed := call_model call\<rparr>)
                    in (case get_prop data (js ''reply'') of
                          Inl e \<Rightarrow> (Some e, w3)
                        | Inr reply \<Rightarrow>
                            (case addAIMessage E reply w3 of
                               Inl e \<Rightarrow> (Some e, w3)
                             | Inr w4 \<Rightarrow> (None, w4))))))"

definition reaches_catch :: "env \<Rightarrow> pending_call \<Rightarrow> outcome \<Rightarrow> widget \<Rightarrow> bool" where
  \<comment> \<open>the \<^verbatim>\<open>try\<close> block throws, so that the \<^verbatim>\<open>catch\<close> block runs\<close>
  "reaches_catch E call out w \<longleftrightarrow> fst (try_block E call out w) \<noteq> None"

definition catch_block :: "env \<Rightarrow> pending_call \<Rightarrow> js_error \<Rightarrow> widget \<Rightarrow> widget" where
  "catch_block E call e w =
     emit (ConsoleError e) (addAIMessage_str E error_text (remove_node (typingBubble call) w))"

definition resume :: "env \<Rightarrow> pending_call \<Rightarrow> outcome \<Rightarrow> widget \<Rightarrow> widget" where
  "resume E call out w =
     (case try_block E call out w of
        (None, w') \<Rightarrow> w'
      | (Some e, w') \<Rightarrow> catch_block E call e w')"

definition settle :: "env \<Rightarrow> nat \<Rightarrow> outcome \<Rightarrow> widget \<Rightarrow> widget" where
  \<comment> \<open>the backend call of the \<open>k\<close>-th suspended \<^verbatim>\<open>sendMessage\<close> settles\<close>
  "settle E k out w =
     (if k < length (in_flight w)
      then resume E (in_flight w ! k) out
             (w\<lparr>in_flight := take k (in_flight w) @ drop (Suc k) (in_flight w)\<rparr>)
      else w)"


section \<open>Copy buttons, clipboard and timers\<close>

definition find_button :: "button_ref \<Rightarrow> widget \<Rightarrow> button option" where
  "find_button r w =
     (case filter (\<lambda>n. nid n = fst r) (transcript w) of
        [] \<Rightarrow> None
      | n # _ \<Rightarrow> if snd r < length (buttons n) then Some (buttons n ! snd r) else None)"

definition set_label :: "button_ref \<Rightarrow> jstring \<Rightarrow> widget \<Rightarrow> widget" where
  "set_label r l w =
     w\<lparr>transcript :=
         map (\<lambda>n. if nid n = fst r \<and> snd r < length (buttons n)
                  then n\<lparr>buttons := (buttons n)[snd r := (buttons n ! snd r)\<lparr>label := l\<rparr>]\<rparr>
                  else n)
           (transcript w)\<rparr>"

definition copy_click :: "button_ref \<Rightarrow> widget \<Rightarrow> widget" where
  \<comment> \<open>a click on a copy button: the handler assigned by \<^verbatim>\<open>activateCopyButtons\<close>, up
      to the call of \<^verbatim>\<open>writeText\<close>\<close>
  "copy_click r w =
     (case find_button r w of
        None \<Rightarrow> w
      | Some b \<Rightarrow>
          if bindings b = 0 then w
          else (case code_text b of
                  None \<Rightarrow> w
                | Some code \<Rightarrow>
                    emit (ClipboardWrite code)
                      (w\<lparr>clipboard_pending := clipboard_pending w @ [(r, code)]\<rparr>)))"

definition clipboard_settled :: "nat \<Rightarrow> bool \<Rightarrow> widget \<Rightarrow> widget" where
  \<comment> \<open>the \<open>k\<close>-th pending \<^verbatim>\<open>writeText\<close> settles: \<^verbatim>\<open>.then\<close> when \<open>ok\<close>, else \<^verbatim>\<open>.catch\<close>\<close>
  "clipboard_settled k ok w =
     (if k < length (clipboard_pending w) then
        let r = fst (clipboard_pending w ! k);
            w1 = w\<lparr>clipboard_pending :=
                     take k (clipboard_pending w) @ drop (Suc k) (clipboard_pending w)\<rparr>;
            w2 = set_label r (if ok then js ''copied!'' else js ''failed'') w1;
            d = (if ok then 1000 else 1200)
        in emit (TimerSet d) (w2\<lparr>timers := timers w2 @ [(d, r)]\<rparr>)
      else w)"

definition timer_fired :: "nat \<Rightarrow> widget \<Rightarrow> widget" where
  "timer_fired k w =
     (if k < length (timers w)
      then set_label (snd (timers w ! k)) (js ''copy'')
             (w\<lparr>timers := take k (timers w) @ drop (Suc k) (timers w)\<rparr>)
      else w)"


section \<open>Event bindings and the page's life\<close>

definition model_changed :: "env \<Rightarrow> widget \<Rightarrow> widget" where
  \<comment> \<open>the \<^verbatim>\<open>change\<close> listener of the model selector\<close>
  "model_changed E w =
     (let selected = selected_model w
      in addSystemNote_str E
           (js ''Switching to <b>'' @ selected @ js ''</b> '' @ [0xD83E, 0xDD16])
           True (playClick w))"

datatype event =
    EditInput jstring          \<comment> \<open>the user edits the input field\<close>
  | ClickSend
  | KeyDown jstring bool       \<comment> \<open>key and \<^verbatim>\<open>shiftKey\<close>, on the input field\<close>
  | ChangeModel jstring        \<comment> \<open>the user selects another model\<close>
  | BackendSettles nat outcome
  | ClickCopy button_ref
  | ClipboardSettles nat bool
  | TimerFires nat

fun step :: "env \<Rightarrow> event \<Rightarrow> widget \<Rightarrow> widget" where
  "step E (EditInput v) w = w\<lparr>input_value := v\<rparr>"
| "step E ClickSend w = sendMessage E w"
| "step E (KeyDown key shift) w =
     (if key = js ''Enter'' \<and> \<not> shift then sendMessage E w else w)"
| "step E (ChangeModel m) w = model_changed E (w\<lparr>selected_model := m\<rparr>)"
| "step E (BackendSettles k out) w = settle E k out w"
| "step E (ClickCopy r) w = copy_click r w"
| "step E (ClipboardSettles k ok) w = clipboard_settled k ok w"
| "step E (TimerFires k) w = timer_fired k w"

definition run :: "env \<Rightarrow> event list \<Rightarrow> widget \<Rightarrow> widget" where
  "run E es w = foldl (\<lambda>w e. step E e w) w es"

definition welcome_text :: jstring where
  "welcome_text =
     js ''Welcome! '' @ [0xD83D, 0xDE0A] @ js '' How can I help you today?<br>'' @
     js ''Paste your prompt, logs, or error code '' @ [0x2014] @ js '' I'' @ [0x2019] @
     js ''ll guide you step-by-step in fixing your issues.'' @ [0xD83D, 0xDD27]"

definition init :: "env \<Rightarrow> jstring \<Rightarrow> widget" where
  \<comment> \<open>the page once the script has run: \<open>m0\<close> is the model selected at load\<close>
  "init E m0 =
     addAIMessage_str E welcome_text
       \<lparr>transcript = [], input_value = [], selected_model = m0, lastModelUsed = m0,
        in_flight = [], clipboard_pending = [], timers = [], next_id = 0, effects = []\<rparr>"

definition plain_env :: env where
  \<comment> \<open>an environment for concrete runs: a converter that returns its input and
      rejects anything but a string, and HTML without copy buttons\<close>
  "plain_env = \<lparr>marked = (\<lambda>s. s), marked_nonstring = (\<lambda>v. None), copy_buttons = (\<lambda>h. [])\<rparr>"

definition commonmark_env :: env where
  \<comment> \<open>Modelled from the spec: the Markdown converter is an external collaborator, of
      which the specification asks CommonMark-like semantics and that a fenced code
      block render as \<^verbatim>\<open><pre><code>\<close> with the language class.  In CommonMark the
      content of a fenced block is made of its lines, each with its line ending, and
      the element is followed by a line feed.  Only the rendering of \<open>fenced_reply\<close>
      is fixed here; no copy button is parsed.\<close>
  "commonmark_env =
     \<lparr>marked = (\<lambda>s. if s = fenced_reply then block_html python_lf_block @ [0x0A] else s),
      marked_nonstring = (\<lambda>v. None), copy_buttons = (\<lambda>h. [])\<rparr>"

definition blank_page :: widget where
  \<comment> \<open>a freshly loaded page whose input field holds only spaces, a line feed and a tab\<close>
  "blank_page = (init plain_env (js ''llama3''))\<lparr>input_value := js ''  '' @ [0x0A, 0x09]\<rparr>"

definition typed_page :: widget where
  \<comment> \<open>a freshly loaded page with \<^verbatim>\<open>" hi "\<close> typed into the input field\<close>
  "typed_page = (init plain_env (js ''llama3''))\<lparr>input_value := js '' hi ''\<rparr>"

definition sent_page :: widget where
  \<comment> \<open>\<^verbatim>\<open>"hi"\<close> sent with the model selected at load, the backend call still pending\<close>
  "sent_page = sendMessage plain_env typed_page"

definition switched_page :: widget where
  \<comment> \<open>the same after a change of model: the call carries the new model, the
      previously used model is still the one selected at load\<close>
  "switched_page =
     run plain_env [EditInput (js ''hi''), ChangeModel (js ''mistral''), ClickSend]
       (init plain_env (js ''llama3''))"

definition bound_once :: "button \<Rightarrow> bool" where
  \<comment> \<open>no handler yet, or one handler and the marker set\<close>
  "bound_once b \<longleftrightarrow> bindings b = 0 \<or> (bindings b = 1 \<and> is_bound b)"

definition all_bound_once :: "node list \<Rightarrow> bool" where
  "all_bound_once ns = list_all (\<lambda>n. list_all bound_once (buttons n)) ns"

definition print_block :: jstring where
  \<comment> \<open>the HTML of a code block without language class whose content is \<^verbatim>\<open>print(1)\<close>\<close>
  "print_block = code_open @ js ''>print(1)'' @ code_close"

definition button_env :: env where
  \<comment> \<open>as \<open>plain_env\<close>, with a parser that finds the one copy button of the wrapper
      around \<^verbatim>\<open>print(1)\<close>\<close>
  "button_env =
     \<lparr>marked = (\<lambda>s. s), marked_nonstring = (\<lambda>v. None),
      copy_buttons = (\<lambda>h. if h = code_wrapper (js ''print(1)'')
                           then [\<lparr>pb_label = js ''copy'', pb_bound = None,
                                  pb_code = Some (js ''print(1)'')\<rparr>]
                           else [])\<rparr>"

definition copy_page :: widget where
  \<comment> \<open>a page whose last entry is the assistant's reply \<open>print_block\<close>, wrapped\<close>
  "copy_page =
     run button_env
       [EditInput (js ''hi''), ClickSend,
        BackendSettles 0 (Responded 200 (Some (JObj [(js ''reply'', JStr print_block)])))]
       (init button_env (js ''llama3''))"

definition print_button :: button where
  "print_button = \<lparr>label = js ''copy'', bound = Some (js ''1''), bindings = 1,
                    code_text = Some (js ''print(1)'')\<rparr>"


definition plain_reply :: "(jstring \<times> jsval) list" where
  "plain_reply = [(js ''reply'', JStr (js ''ok''))]"


section \<open>Properties of sending\<close>

lemmas dom_defs = addUserMessage_def addTypingBubble_def addSystemNote_def addSystemNote_str_def
  appendChild_def
  scrollToBottom_def emit_def playClick_def remove_node_def

lemma trim_blank: "\<forall>c \<in> set s. is_trimmed c \<Longrightarrow> trim s = []"
proof -
  assume "\<forall>c \<in> set s. is_trimmed c"
  then have "dropWhile is_trimmed s = []" by (induction s) auto
  then show ?thesis by (simp only: trim_def rev.simps dropWhile.simps)
qed

lemma init_plain:
  "init plain_env m =
     \<lparr>transcript = [html_node plain_env 0 MsgAI (wrap_code_blocks welcome_text)],
      input_value = [], selected_model = m, lastModelUsed = m, in_flight = [],
      clipboard_pending = [], timers = [], next_id = Suc 0,
      effects = [Appended 0, Scrolled]\<rparr>"
  by (simp add: init_def addAIMessage_str_def show_ai_html_def activateCopyButtons_def
        dom_defs html_node_def bind_node_def plain_env_def)

lemmas ai_defs = addAIMessage_def addAIMessage_str_def show_ai_html_def activateCopyButtons_def
  render_reply_def marked_parse_def

lemma wrap_plain [simp]: "wrap_code_blocks (js ''ok'') = js ''ok''"
  by (simp add: match_at_def code_open_def js_def)

lemma wrap_error_text: "wrap_code_blocks error_text = error_text"
  by (simp add: match_at_def code_open_def js_def error_text_def)

lemma wrap_welcome: "wrap_code_blocks welcome_text = welcome_text"
  by (simp add: match_at_def code_open_def js_def welcome_text_def)

lemma sent_page_eq:
  "sent_page =
     \<lparr>transcript = [html_node plain_env 0 MsgAI (wrap_code_blocks welcome_text),
                    text_node 1 MsgUser (js ''hi''), html_node plain_env 2 MsgAI typing_html],
      input_value = [], selected_model = js ''llama3'', lastModelUsed = js ''llama3'',
      in_flight = [\<lparr>sent = \<lparr>message = js ''hi'', model = js ''llama3'',
                             prev_model = js ''llama3''\<rparr>,
                    typingBubble = 2, call_model = js ''llama3''\<rparr>],
      clipboard_pending = [], timers = [], next_id = 3,
      effects = [Appended 0, Scrolled, Appended 1, Scrolled, Appended 2, Scrolled,
                 Fetch \<lparr>message = js ''hi'', model = js ''llama3'',
                        prev_model = js ''llama3''\<rparr>]\<rparr>"
proof -
  have t: "trim (input_value typed_page) = js ''hi''"
    by (simp add: typed_page_def trim_def js_def is_trimmed_def is_white_space_def
          is_line_terminator_def)
  show ?thesis
    unfolding sent_page_def
    by (simp add: sendMessage_def t Let_def dom_defs) (simp add: typed_page_def init_plain js_def html_node_def text_node_def eval_nat_numeral)
qed

lemma switched_page_eq:
  "switched_page =
     \<lparr>transcript = [html_node plain_env 0 MsgAI (wrap_code_blocks welcome_text),
                    html_node plain_env 1 MsgSystem
                      (system_note_html (js ''Switching to <b>'' @ js ''mistral'' @ js ''</b> ''
                         @ [0xD83E, 0xDD16]) True),
                    text_node 2 MsgUser (js ''hi''), html_node plain_env 3 MsgAI typing_html],
      input_value = [], selected_model = js ''mistral'', lastModelUsed = js ''llama3'',
      in_flight = [\<lparr>sent = \<lparr>message = js ''hi'', model = js ''mistral'',
                             prev_model = js ''llama3''\<rparr>,
                    typingBubble = 3, call_model = js ''mistral''\<rparr>],
      clipboard_pending = [], timers = [], next_id = 4,
      effects = [Appended 0, Scrolled, ClickSound, Appended 1, Scrolled, Appended 2, Scrolled,
                 Appended 3, Scrolled,
                 Fetch \<lparr>message = js ''hi'', model = js ''mistral'',
                        prev_model = js ''llama3''\<rparr>]\<rparr>"
proof -
  have t: "trim (js ''hi'') = js ''hi''"
    by (simp add: trim_def js_def is_trimmed_def is_white_space_def is_line_terminator_def)
  show ?thesis
    unfolding switched_page_def
    by (simp add: run_def init_plain sendMessage_def model_changed_def t Let_def dom_defs)
       (simp add: js_def html_node_def text_node_def eval_nat_numeral)
qed



text \<open>
  C4.  When the input field is empty or holds only white space (what
  \<^verbatim>\<open>trim\<close> strips), a send changes nothing: no transcript entry, the input
  field as it was, no backend call.
\<close>

theorem blank_input_is_noop:
  assumes "list_all is_trimmed (input_value w)"
  shows "sendMessage E w = w \<and> step E ClickSend w = w
         \<and> step E (KeyDown (js ''Enter'') False) w = w"
  using assms by (simp add: sendMessage_def trim_blank list_all_iff)

theorem blank_input_is_noop_witness:
  "list_all is_trimmed (input_value blank_page)
   \<and> sendMessage plain_env blank_page = blank_page
   \<and> in_flight (step plain_env ClickSend blank_page) = []
   \<and> effects (step plain_env ClickSend blank_page) = [Appended 0, Scrolled]"
proof -
  have h: "list_all is_trimmed (input_value blank_page)"
    by (simp add: blank_page_def js_def is_trimmed_def is_white_space_def is_line_terminator_def)
  have e: "effects blank_page = [Appended 0, Scrolled]" "in_flight blank_page = []"
    by (simp_all add: blank_page_def init_plain)
  from blank_input_is_noop [OF h, of plain_env] h e show ?thesis by simp
qed


section \<open>Properties of the model selector\<close>



section \<open>Properties of the response\<close>






lemma to_string_error:
  "to_string v = Inl e \<Longrightarrow> e = TypeError"
  "join_elements vs = Inl e \<Longrightarrow> e = TypeError"
  by (induction v and vs arbitrary: e and e rule: to_string_join_elements.induct)
     (auto split: if_splits sum.splits)

lemma try_block_throws:
  "fst (try_block E call (Responded status (Some data)) w) \<noteq> None \<longleftrightarrow>
     data = JNull \<or> data = JUndefined \<or>
     (\<exists>note. get_prop data (js ''system_note'') = Inr note \<and> to_boolean note
             \<and> to_string note = Inl TypeError) \<or>
     (\<exists>reply. get_prop data (js ''reply'') = Inr reply \<and> marked_parse E reply = None)"
proof (cases "data = JNull \<or> data = JUndefined")
  case True
  then show ?thesis by (auto simp: try_block_def Let_def)
next
  case False
  then obtain sn reply
    where g: "get_prop data (js ''system_note'') = Inr sn"
             "get_prop data (js ''reply'') = Inr reply"
    by (cases data) auto
  show ?thesis
  proof (cases "to_boolean sn \<and> to_string sn \<noteq> Inr (projr (to_string sn))")
    case True
    then obtain e where "to_string sn = Inl e" by (cases "to_string sn") auto
    with to_string_error(1) [of sn e] have "to_string sn = Inl TypeError" by simp
    with True False g show ?thesis
      by (simp add: try_block_def Let_def addSystemNote_def)
  next
    case n: False
    then have ok: "to_boolean sn \<Longrightarrow> \<exists>s. to_string sn = Inr s"
      by (cases "to_string sn") auto
    show ?thesis
    proof (cases "marked_parse E reply")
      case None
      with False g ok show ?thesis
        by (auto simp: try_block_def Let_def addSystemNote_def addAIMessage_def)
    next
      case (Some html0)
      with False g ok show ?thesis
        by (auto simp: try_block_def Let_def addSystemNote_def addAIMessage_def)
    qed
  qed
qed

text \<open>
  C10, as the code has it.  The HTTP status is never inspected: the outcome of a
  response depends on its body alone.  A body of the expected shape, an object with
  a string \<^verbatim>\<open>reply\<close> and a \<^verbatim>\<open>system_note\<close> that is absent or a string, takes the
  path without exception, whatever the status: placeholder removed, previously used
  model updated, \<^verbatim>\<open>reply\<close> rendered as the assistant entry.  The \<^verbatim>\<open>catch\<close> block
  is reached by a rejected call, by a body that is not JSON, and also by a body that
  parses to \<^verbatim>\<open>null\<close>, by a truthy \<^verbatim>\<open>system_note\<close> that cannot be converted to a
  string, and by a \<^verbatim>\<open>reply\<close> that the converter rejects.
\<close>

theorem status_never_inspected:
  fixes w :: widget and E :: env
  assumes "k < length (in_flight w)"
  defines "call \<equiv> in_flight w ! k"
  shows "settle E k (Responded status body) w = settle E k (Responded status' body) w
     \<and> reaches_catch E call Rejected w
     \<and> (reaches_catch E call (Responded status body) w \<longleftrightarrow>
          body = None \<or> body = Some JNull \<or> body = Some JUndefined \<or>
          (\<exists>data note. body = Some data \<and> get_prop data (js ''system_note'') = Inr note
                         \<and> to_boolean note \<and> to_string note = Inl TypeError) \<or>
          (\<exists>data reply. body = Some data \<and> get_prop data (js ''reply'') = Inr reply
                          \<and> marked_parse E reply = None))
     \<and> (body = Some (JObj props) \<and> map_of props (js ''reply'') = Some (JStr reply)
          \<and> (map_of props (js ''system_note'') = None
               \<or> map_of props (js ''system_note'') = Some (JStr n)) \<longrightarrow>
          \<not> reaches_catch E call (Responded status body) w
          \<and> lastModelUsed (settle E k (Responded status body) w) = call_model call
          \<and> Removed (typingBubble call)
                \<in> set (drop (length (effects w)) (effects (settle E k (Responded status body) w)))
          \<and> cls (last (transcript (settle E k (Responded status body) w))) = MsgAI
          \<and> content (last (transcript (settle E k (Responded status body) w)))
              = InnerHTML (render_reply E reply))"
proof (intro conjI)
  show "settle E k (Responded status body) w = settle E k (Responded status' body) w"
    by (simp add: settle_def resume_def try_block_def)
  show "reaches_catch E call Rejected w"
    by (simp add: reaches_catch_def try_block_def)
  show "reaches_catch E call (Responded status body) w \<longleftrightarrow>
          body = None \<or> body = Some JNull \<or> body = Some JUndefined \<or>
          (\<exists>data note. body = Some data \<and> get_prop data (js ''system_note'') = Inr note
                         \<and> to_boolean note \<and> to_string note = Inl TypeError) \<or>
          (\<exists>data reply. body = Some data \<and> get_prop data (js ''reply'') = Inr reply
                          \<and> marked_parse E reply = None)"
  proof (cases body)
    case None
    then show ?thesis by (simp add: reaches_catch_def try_block_def)
  next
    case (Some data)
    with try_block_throws [of E call status data w] show ?thesis
      by (simp add: reaches_catch_def)
  qed
  show "body = Some (JObj props) \<and> map_of props (js ''reply'') = Some (JStr reply)
          \<and> (map_of props (js ''system_note'') = None
               \<or> map_of props (js ''system_note'') = Some (JStr n)) \<longrightarrow>
          \<not> reaches_catch E call (Responded status body) w
          \<and> lastModelUsed (settle E k (Responded status body) w) = call_model call
          \<and> Removed (typingBubble call)
                \<in> set (drop (length (effects w)) (effects (settle E k (Responded status body) w)))
          \<and> cls (last (transcript (settle E k (Responded status body) w))) = MsgAI
          \<and> content (last (transcript (settle E k (Responded status body) w)))
              = InnerHTML (render_reply E reply)"
    using assms(1) unfolding call_def
    by (auto simp add: reaches_catch_def settle_def resume_def try_block_def Let_def ai_defs
          dom_defs html_node_def bind_node_def)
qed

theorem status_never_inspected_witness:
  "0 < length (in_flight switched_page)
   \<and> map_of plain_reply (js ''reply'') = Some (JStr (js ''ok''))
   \<and> settle plain_env 0 (Responded 500 (Some (JObj plain_reply))) switched_page
       = settle plain_env 0 (Responded 200 (Some (JObj plain_reply))) switched_page
   \<and> reaches_catch plain_env (in_flight switched_page ! 0)
        (Responded 500 (Some (JObj plain_reply))) switched_page = False
   \<and> lastModelUsed (settle plain_env 0 (Responded 500 (Some (JObj plain_reply))) switched_page)
       = js ''mistral''
   \<and> content (last (transcript
         (settle plain_env 0 (Responded 500 (Some (JObj plain_reply))) switched_page)))
       = InnerHTML (js ''ok'')"
proof -
  have k: "0 < length (in_flight switched_page)" by (simp add: switched_page_eq)
  have r: "map_of plain_reply (js ''reply'') = Some (JStr (js ''ok''))"
    by (simp add: plain_reply_def js_def)
  have c: "call_model (in_flight switched_page ! 0) = js ''mistral''"
    by (simp add: switched_page_eq)
  have m: "render_reply plain_env (js ''ok'') = js ''ok''"
    by (simp add: render_reply_def plain_env_def)
  have absent: "map_of plain_reply (js ''system_note'') = None"
    by (simp add: plain_reply_def js_def)
  note s = status_never_inspected [OF k, where E = plain_env and status = 500
      and body = "Some (JObj plain_reply)" and status' = 200 and props = plain_reply
      and reply = "js ''ok''" and n = "[]"]
  from s have a: "settle plain_env 0 (Responded 500 (Some (JObj plain_reply))) switched_page
       = settle plain_env 0 (Responded 200 (Some (JObj plain_reply))) switched_page"
    by (rule conjunct1)
  from s r absent have b: "\<not> reaches_catch plain_env (in_flight switched_page ! 0)
        (Responded 500 (Some (JObj plain_reply))) switched_page
     \<and> lastModelUsed (settle plain_env 0 (Responded 500 (Some (JObj plain_reply))) switched_page)
       = call_model (in_flight switched_page ! 0)
     \<and> content (last (transcript
         (settle plain_env 0 (Responded 500 (Some (JObj plain_reply))) switched_page)))
       = InnerHTML (render_reply plain_env (js ''ok''))"
    by blast
  from b c m have b1: "reaches_catch plain_env (in_flight switched_page ! 0)
        (Responded 500 (Some (JObj plain_reply))) switched_page = False"
    and b2: "lastModelUsed (settle plain_env 0 (Responded 500 (Some (JObj plain_reply)))
        switched_page) = js ''mistral''"
    and b3: "content (last (transcript
         (settle plain_env 0 (Responded 500 (Some (JObj plain_reply))) switched_page)))
       = InnerHTML (js ''ok'')"
    by simp_all
  from k r a b1 b2 b3 show ?thesis by (intro conjI)
qed

text \<open>
  C10 as stated fails for a response of status 500 whose body is the JSON text
  \<^verbatim>\<open>null\<close>: it parses, the read of \<^verbatim>\<open>data.system_note\<close> throws, the error message
  is shown and the previously used model is not updated.
\<close>

theorem null_body_counterexample:
  "lastModelUsed (settle plain_env 0 (Responded 500 (Some JNull)) switched_page) = js ''llama3''
   \<and> call_model (in_flight switched_page ! 0) = js ''mistral''
   \<and> last (effects (settle plain_env 0 (Responded 500 (Some JNull)) switched_page))
       = ConsoleError TypeError
   \<and> content (last (transcript (settle plain_env 0 (Responded 500 (Some JNull)) switched_page)))
       = InnerHTML error_text"
  by (simp add: switched_page_eq settle_def resume_def try_block_def catch_block_def Let_def
        ai_defs dom_defs html_node_def plain_env_def wrap_error_text bind_node_def)

text \<open>
  A truthy \<^verbatim>\<open>system_note\<close> that cannot be converted to a string: the sound is
  played, the template literal throws, and the \<^verbatim>\<open>catch\<close> block runs with the
  previously used model as it was.
\<close>

lemma unconvertible_note_caught:
  "to_string (JObj [(js ''toString'', JNum True (js ''1''))]) = Inl TypeError
   \<and> lastModelUsed (settle plain_env 0
        (Responded 200 (Some (JObj [(js ''reply'', JStr (js ''ok'')),
           (js ''system_note'', JObj [(js ''toString'', JNum True (js ''1''))])])))
        switched_page) = js ''llama3''
   \<and> drop (length (effects switched_page)) (effects (settle plain_env 0
        (Responded 200 (Some (JObj [(js ''reply'', JStr (js ''ok'')),
           (js ''system_note'', JObj [(js ''toString'', JNum True (js ''1''))])])))
        switched_page))
       = [Removed 3, ClickSound, Removed 3, Appended 4, Scrolled, ConsoleError TypeError]"
proof -
  have k: "js ''system_note'' \<noteq> js ''reply''" by (simp add: js_def)
  show ?thesis
    by (simp add: switched_page_eq settle_def resume_def try_block_def catch_block_def Let_def
          k ai_defs dom_defs html_node_def plain_env_def wrap_error_text)
qed


section \<open>Requests in flight\<close>

lemma in_flight_resume: "in_flight (resume E call out w) = in_flight w"
  by (auto simp: resume_def try_block_def catch_block_def Let_def ai_defs dom_defs
      split: outcome.splits option.splits sum.splits prod.splits)

lemma in_flight_send:
  "in_flight (sendMessage E w) =
     (if trim (input_value w) = [] then in_flight w
      else in_flight w @ [\<lparr>sent = \<lparr>message = trim (input_value w), model = selected_model w,
                     prev_model = lastModelUsed w\<rparr>,
             typingBubble = Suc (next_id w), call_model = selected_model w\<rparr>])"
  by (simp add: sendMessage_def Let_def dom_defs)

text \<open>
  C6, as the code has it.  Nothing limits the number of requests in flight: a send
  with text that is not blank adds one pending call whatever is already pending, a
  call leaves when its own backend call settles, and no other event changes the
  number.
\<close>

theorem unguarded_sends:
  "length (in_flight (step E e w)) =
     (if (e = ClickSend \<or> e = KeyDown (js ''Enter'') False) \<and> trim (input_value w) \<noteq> []
      then Suc (length (in_flight w))
      else if (\<exists>k out. e = BackendSettles k out \<and> k < length (in_flight w))
      then length (in_flight w) - 1
      else length (in_flight w))"
proof (cases e)
  case (BackendSettles k out)
  then show ?thesis by (simp add: settle_def in_flight_resume)
next
  case (ClickCopy r)
  then show ?thesis
    by (simp add: copy_click_def emit_def split: option.splits)
next
  case (ClipboardSettles k ok)
  then show ?thesis by (simp add: clipboard_settled_def Let_def emit_def set_label_def)
next
  case (TimerFires k)
  then show ?thesis by (simp add: timer_fired_def set_label_def)
qed (auto simp: in_flight_send model_changed_def Let_def dom_defs)

theorem unguarded_sends_witness:
  "trim (input_value typed_page) \<noteq> []
   \<and> length (in_flight (step plain_env ClickSend sent_page)) = 1
   \<and> length (in_flight (step plain_env ClickSend (sent_page\<lparr>input_value := js ''more''\<rparr>))) = 2
   \<and> length (in_flight (step plain_env (BackendSettles 0 Rejected) sent_page)) = 0"
proof -
  have t: "trim (js ''more'') = js ''more''" "trim [] = []"
    by (simp_all add: trim_def js_def is_trimmed_def is_white_space_def is_line_terminator_def)
  have h: "trim (input_value typed_page) \<noteq> []"
    by (simp add: typed_page_def trim_def js_def is_trimmed_def is_white_space_def
          is_line_terminator_def)
  have n: "js ''more'' \<noteq> []" by (simp add: js_def)
  from unguarded_sends [of plain_env ClickSend sent_page]
       unguarded_sends [of plain_env ClickSend "sent_page\<lparr>input_value := js ''more''\<rparr>"]
       unguarded_sends [of plain_env "BackendSettles 0 Rejected" sent_page] h
  show ?thesis by (simp add: sent_page_eq t n)
qed

text \<open>
  C6 as stated fails after two sends with no response in between: two backend calls
  are pending at once.
\<close>

theorem two_sends_counterexample:
  "length (in_flight (run plain_env
      [EditInput (js ''a''), ClickSend, EditInput (js ''b''), KeyDown (js ''Enter'') False]
      (init plain_env (js ''llama3'')))) = 2"
proof -
  have t: "trim (js ''a'') = js ''a''" "trim (js ''b'') = js ''b''"
    by (simp_all add: trim_def js_def is_trimmed_def is_white_space_def is_line_terminator_def)
  have n: "js ''a'' \<noteq> []" "js ''b'' \<noteq> []" by (simp_all add: js_def)
  show ?thesis
    by (simp add: run_def init_plain sendMessage_def t n Let_def dom_defs)
qed


section \<open>Properties of the copy buttons\<close>

lemma bind_button_idem: "bind_button (bind_button b) = bind_button b"
  by (simp add: bind_button_def is_bound_def js_def)

lemma bind_node_idem: "bind_node (bind_node n) = bind_node n"
  by (simp add: bind_node_def bind_button_idem)

lemma activate_idem: "activateCopyButtons (activateCopyButtons w) = activateCopyButtons w"
  by (simp add: activateCopyButtons_def bind_node_idem)

lemma activate_funpow: "(activateCopyButtons ^^ Suc n) w = activateCopyButtons w"
  by (induction n) (simp_all add: activate_idem)

lemma bind_button_funpow: "(bind_button ^^ Suc n) b = bind_button b"
  by (induction n) (simp_all add: bind_button_idem)

lemma bound_once_bind: "bound_once b \<Longrightarrow> bound_once (bind_button b)"
  by (auto simp: bound_once_def bind_button_def is_bound_def js_def)

lemma bound_once_new: "bound_once (new_button pb)"
  by (simp add: bound_once_def new_button_def)

lemma bound_once_label: "bound_once b \<Longrightarrow> bound_once (b\<lparr>label := l\<rparr>)"
  by (simp add: bound_once_def is_bound_def)

lemma abo_append: "all_bound_once (xs @ ys) \<longleftrightarrow> all_bound_once xs \<and> all_bound_once ys"
  by (simp add: all_bound_once_def)

lemma abo_Nil: "all_bound_once []"
  by (simp add: all_bound_once_def)

lemma abo_Cons: "all_bound_once (n # ns) \<longleftrightarrow> list_all bound_once (buttons n) \<and> all_bound_once ns"
  by (simp add: all_bound_once_def)

lemma html_node_ok: "list_all bound_once (buttons (html_node E i c h))"
  by (simp add: html_node_def list_all_iff bound_once_new)

lemma text_node_ok: "list_all bound_once (buttons (text_node i c t))"
  by (simp add: text_node_def)

lemmas abo_simps = abo_Nil abo_Cons abo_append html_node_ok text_node_ok

lemma abo_filter: "all_bound_once ns \<Longrightarrow> all_bound_once (filter P ns)"
  by (auto simp: all_bound_once_def list_all_iff)

lemma abo_bind: "all_bound_once ns \<Longrightarrow> all_bound_once (map bind_node ns)"
  by (simp add: all_bound_once_def list_all_iff bind_node_def bound_once_bind)

lemma abo_set_label:
  "all_bound_once (transcript w) \<Longrightarrow> all_bound_once (transcript (set_label r l w))"
proof -
  assume a: "all_bound_once (transcript w)"
  have "list_all bound_once (bs[i := (bs ! i)\<lparr>label := l\<rparr>])"
    if "list_all bound_once bs" "i < length bs" for bs i
    using that by (auto simp: list_all_iff bound_once_label dest!: set_update_subset_insert [THEN subsetD])
  with a show ?thesis
    by (auto simp: all_bound_once_def set_label_def list_all_iff)
qed

lemma abo_show_ai:
  "all_bound_once (transcript w) \<Longrightarrow> all_bound_once (transcript (show_ai_html E h w))"
proof -
  assume "all_bound_once (transcript w)"
  then have "all_bound_once (transcript w @ [html_node E (next_id w) MsgAI (wrap_code_blocks h)])"
    by (simp add: abo_simps)
  then have "all_bound_once
      (map bind_node (transcript w @ [html_node E (next_id w) MsgAI (wrap_code_blocks h)]))"
    by (rule abo_bind)
  then show ?thesis
    by (simp add: show_ai_html_def activateCopyButtons_def dom_defs)
qed

lemma abo_note:
  "all_bound_once (transcript w) \<Longrightarrow> all_bound_once (transcript (addSystemNote_str E t l w))"
  by (simp add: dom_defs abo_simps)

lemma abo_remove:
  "all_bound_once (transcript w) \<Longrightarrow> all_bound_once (transcript (remove_node i w))"
  by (simp add: dom_defs abo_filter)

lemma abo_send:
  "all_bound_once (transcript w) \<Longrightarrow> all_bound_once (transcript (sendMessage E w))"
  by (simp add: sendMessage_def Let_def dom_defs abo_simps)

lemma abo_try:
  "all_bound_once (transcript w) \<Longrightarrow> all_bound_once (transcript (snd (try_block E call out w)))"
  by (auto simp: try_block_def Let_def addAIMessage_def addSystemNote_def playClick_def emit_def
        intro!: abo_show_ai abo_note abo_remove
        split: outcome.splits option.splits sum.splits if_splits)

lemma abo_catch:
  "all_bound_once (transcript w) \<Longrightarrow> all_bound_once (transcript (catch_block E call e w))"
  by (simp add: catch_block_def addAIMessage_str_def emit_def abo_show_ai abo_remove)

lemma abo_resume:
  "all_bound_once (transcript w) \<Longrightarrow> all_bound_once (transcript (resume E call out w))"
proof -
  assume a: "all_bound_once (transcript w)"
  obtain e w' where t: "try_block E call out w = (e, w')" by (cases "try_block E call out w")
  with abo_try [OF a, of E call out] have "all_bound_once (transcript w')" by simp
  with t show ?thesis by (cases e) (simp_all add: resume_def abo_catch)
qed

lemma abo_step:
  "all_bound_once (transcript w) \<Longrightarrow> all_bound_once (transcript (step E e w))"
proof (cases e)
  case (BackendSettles k out)
  assume "all_bound_once (transcript w)"
  with BackendSettles show ?thesis
    by (auto simp: settle_def intro!: abo_resume)
next
  case (ClickCopy r)
  assume "all_bound_once (transcript w)"
  with ClickCopy show ?thesis by (simp add: copy_click_def emit_def split: option.splits)
next
  case (ClipboardSettles k ok)
  assume a: "all_bound_once (transcript w)"
  have "all_bound_once (transcript (set_label r l (w\<lparr>clipboard_pending := c\<rparr>)))" for r l c
    by (rule abo_set_label) (simp add: a)
  with ClipboardSettles a show ?thesis by (simp add: clipboard_settled_def Let_def emit_def)
next
  case (TimerFires k)
  assume a: "all_bound_once (transcript w)"
  have "all_bound_once (transcript (set_label r l (w\<lparr>timers := c\<rparr>)))" for r l c
    by (rule abo_set_label) (simp add: a)
  with TimerFires a show ?thesis by (simp add: timer_fired_def)
next
  case (ChangeModel m)
  assume "all_bound_once (transcript w)"
  with ChangeModel show ?thesis
    by (simp add: model_changed_def Let_def playClick_def emit_def abo_note)
qed (simp_all add: abo_send)

lemma abo_run:
  "all_bound_once (transcript w) \<Longrightarrow> all_bound_once (transcript (run E es w))"
  unfolding run_def by (induction es arbitrary: w) (simp_all add: abo_step)

lemma abo_init: "all_bound_once (transcript (init E m))"
  unfolding init_def addAIMessage_str_def by (rule abo_show_ai) (simp add: abo_Nil)

lemma wrap_print_block: "wrap_code_blocks print_block = code_wrapper (js ''print(1)'')"
  by (simp add: print_block_def match_at_def code_open_def lang_open_def code_close_def js_def
        code_wrapper_def)

lemma copy_page_eq:
  "copy_page =
     \<lparr>transcript =
        [\<lparr>nid = 0, cls = MsgAI, content = InnerHTML welcome_text, buttons = []\<rparr>,
         \<lparr>nid = 1, cls = MsgUser, content = InnerText (js ''hi''), buttons = []\<rparr>,
         \<lparr>nid = 3, cls = MsgAI, content = InnerHTML (code_wrapper (js ''print(1)'')),
          buttons = [\<lparr>label = js ''copy'', bound = Some (js ''1''), bindings = 1,
                      code_text = Some (js ''print(1)'')\<rparr>]\<rparr>],
      input_value = [], selected_model = js ''llama3'', lastModelUsed = js ''llama3'',
      in_flight = [], clipboard_pending = [], timers = [], next_id = 4,
      effects = [Appended 0, Scrolled, Appended 1, Scrolled, Appended 2, Scrolled,
                 Fetch \<lparr>message = js ''hi'', model = js ''llama3'',
                        prev_model = js ''llama3''\<rparr>,
                 Removed 2, LastModelSet (js ''llama3''), Appended 3, Scrolled]\<rparr>"
proof -
  have t: "trim (js ''hi'') = js ''hi''"
    by (simp add: trim_def js_def is_trimmed_def is_white_space_def is_line_terminator_def)
  have n: "js ''hi'' \<noteq> []" by (simp add: js_def)
  have w: "welcome_text \<noteq> code_wrapper (js ''print(1)'')"
    "typing_html \<noteq> code_wrapper (js ''print(1)'')"
    by (simp_all add: welcome_text_def typing_html_def code_wrapper_def js_def)
  have cb: "copy_buttons button_env welcome_text = []" "copy_buttons button_env typing_html = []"
    "copy_buttons button_env (code_wrapper (js ''print(1)'')) =
       [\<lparr>pb_label = js ''copy'', pb_bound = None, pb_code = Some (js ''print(1)'')\<rparr>]"
    "marked button_env = (\<lambda>s. s)"
    by (simp_all add: button_env_def w)
  have i: "init button_env (js ''llama3'') =
     \<lparr>transcript = [\<lparr>nid = 0, cls = MsgAI, content = InnerHTML welcome_text, buttons = []\<rparr>],
      input_value = [], selected_model = js ''llama3'', lastModelUsed = js ''llama3'',
      in_flight = [], clipboard_pending = [], timers = [], next_id = 1,
      effects = [Appended 0, Scrolled]\<rparr>"
    by (simp add: init_def addAIMessage_str_def show_ai_html_def activateCopyButtons_def
        dom_defs html_node_def bind_node_def cb wrap_welcome)
  have s: "sendMessage button_env (init button_env (js ''llama3'')\<lparr>input_value := js ''hi''\<rparr>) =
     \<lparr>transcript =
        [\<lparr>nid = 0, cls = MsgAI, content = InnerHTML welcome_text, buttons = []\<rparr>,
         \<lparr>nid = 1, cls = MsgUser, content = InnerText (js ''hi''), buttons = []\<rparr>,
         \<lparr>nid = 2, cls = MsgAI, content = InnerHTML typing_html, buttons = []\<rparr>],
      input_value = [], selected_model = js ''llama3'', lastModelUsed = js ''llama3'',
      in_flight = [\<lparr>sent = \<lparr>message = js ''hi'', model = js ''llama3'',
                             prev_model = js ''llama3''\<rparr>,
                    typingBubble = 2, call_model = js ''llama3''\<rparr>],
      clipboard_pending = [], timers = [], next_id = 3,
      effects = [Appended 0, Scrolled, Appended 1, Scrolled, Appended 2, Scrolled,
                 Fetch \<lparr>message = js ''hi'', model = js ''llama3'',
                        prev_model = js ''llama3''\<rparr>]\<rparr>"
    by (simp add: i sendMessage_def t n Let_def dom_defs html_node_def text_node_def cb
          eval_nat_numeral)
  have p: "map_of [(js ''reply'', JStr print_block)] (js ''system_note'') = None"
    "map_of [(js ''reply'', JStr print_block)] (js ''reply'') = Some (JStr print_block)"
    by (simp_all add: js_def)
  have k: "js ''system_note'' \<noteq> js ''reply''" by (simp add: js_def)
  show ?thesis
    unfolding copy_page_def run_def
    by (simp add: s k settle_def resume_def try_block_def p Let_def ai_defs dom_defs
          html_node_def bind_node_def cb wrap_print_block new_button_def bind_button_def
          is_bound_def)
qed

text \<open>
  C7.  The binder is idempotent: run any number of times, at least once, it leaves the
  page as one run does.  A run sets the marker on every copy button and assigns the
  click handler exactly to those that did not carry it, so that a button built
  without the marker has one handler after any number of runs, and in every state
  the page can reach no button has had the handler assigned twice.
\<close>

theorem binder_idempotent:
  "(activateCopyButtons ^^ Suc n) w = activateCopyButtons w
   \<and> transcript (activateCopyButtons w) = map bind_node (transcript w)
   \<and> (bind_button ^^ Suc n) b = bind_button b
   \<and> is_bound (bind_button b)
   \<and> bindings (bind_button b) = (if is_bound b then bindings b else Suc (bindings b))
   \<and> (pb_bound pb = None \<longrightarrow> bindings ((bind_button ^^ Suc n) (new_button pb)) = 1)
   \<and> all_bound_once (transcript (run E es (init E m)))"
  by (simp only: activate_funpow bind_button_funpow abo_run [OF abo_init])
     (simp add: activateCopyButtons_def bind_button_def is_bound_def new_button_def js_def)

theorem binder_idempotent_witness:
  "pb_bound \<lparr>pb_label = js ''copy'', pb_bound = None, pb_code = Some (js ''print(1)'')\<rparr> = None
   \<and> bindings ((bind_button ^^ Suc 2)
        (new_button \<lparr>pb_label = js ''copy'', pb_bound = None,
                     pb_code = Some (js ''print(1)'')\<rparr>)) = 1
   \<and> (activateCopyButtons ^^ Suc 2) copy_page = copy_page
   \<and> map bindings (buttons (last (transcript copy_page))) = [1]"
proof -
  have a: "activateCopyButtons copy_page = copy_page"
    by (simp add: copy_page_eq activateCopyButtons_def bind_node_def bind_button_def
          is_bound_def js_def)
  note b = binder_idempotent [of 2 copy_page _
      "\<lparr>pb_label = js ''copy'', pb_bound = None, pb_code = Some (js ''print(1)'')\<rparr>"]
  from b have b1: "(activateCopyButtons ^^ Suc 2) copy_page = activateCopyButtons copy_page"
    by (rule conjunct1)
  have p: "pb_bound \<lparr>pb_label = js ''copy'', pb_bound = None,
                     pb_code = Some (js ''print(1)'')\<rparr> = None" by simp
  from b p have b2: "bindings ((bind_button ^^ Suc 2)
        (new_button \<lparr>pb_label = js ''copy'', pb_bound = None,
                     pb_code = Some (js ''print(1)'')\<rparr>)) = 1"
    by blast
  have c: "map bindings (buttons (last (transcript copy_page))) = [1]"
    by (simp add: copy_page_eq)
  from a b1 have b3: "(activateCopyButtons ^^ Suc 2) copy_page = copy_page" by simp
  from p b2 b3 c show ?thesis by (intro conjI)
qed

lemma find_button_set_label:
  "find_button r (set_label r l w) = map_option (\<lambda>b. b\<lparr>label := l\<rparr>) (find_button r w)"
proof -
  define f :: "node \<Rightarrow> node" where "f = (\<lambda>n. if nid n = fst r \<and> snd r < length (buttons n)
                  then n\<lparr>buttons := (buttons n)[snd r := (buttons n ! snd r)\<lparr>label := l\<rparr>]\<rparr>
                  else n)"
  have nid: "nid (f n) = nid n" for n by (simp add: f_def)
  have flt: "filter (\<lambda>n. nid n = fst r) (map f ns) = map f (filter (\<lambda>n. nid n = fst r) ns)" for ns
    by (induction ns) (simp_all add: nid)
  have tr: "transcript (set_label r l w) = map f (transcript w)"
    by (simp add: set_label_def f_def)
  show ?thesis
  proof (cases "filter (\<lambda>n. nid n = fst r) (transcript w)")
    case Nil
    then show ?thesis by (simp add: find_button_def tr flt)
  next
    case (Cons n ns)
    then have "n \<in> set (filter (\<lambda>n. nid n = fst r) (transcript w))" by simp
    then have "nid n = fst r" by simp
    with Cons show ?thesis by (simp add: find_button_def tr flt) (simp add: f_def)
  qed
qed

text \<open>
  C8.  A click on a bound copy button whose code element holds the text \<open>X\<close> asks
  the clipboard once to write \<open>X\<close>.  When that write succeeds the label becomes
  \<^verbatim>\<open>copied!\<close> and a timer of 1000 ms is set; when it fails the label becomes
  \<^verbatim>\<open>failed\<close> and the timer is of 1200 ms; the timer resets the label to
  \<^verbatim>\<open>copy\<close>.  No second write is asked for.
\<close>

theorem copy_click_cycle:
  fixes w :: widget and r :: button_ref and ok :: bool
  assumes "find_button r w = Some b" and "0 < bindings b" and "code_text b = Some X"
  defines "w1 \<equiv> copy_click r w"
  defines "w2 \<equiv> clipboard_settled (length (clipboard_pending w)) ok w1"
  defines "w3 \<equiv> timer_fired (length (timers w)) w2"
  defines "delay \<equiv> if ok then 1000 else 1200"
  shows "w1 = w\<lparr>clipboard_pending := clipboard_pending w @ [(r, X)],
                 effects := effects w @ [ClipboardWrite X]\<rparr>
     \<and> map_option label (find_button r w2) = Some (if ok then js ''copied!'' else js ''failed'')
     \<and> clipboard_pending w2 = clipboard_pending w
     \<and> timers w2 = timers w @ [(delay, r)]
     \<and> effects w2 = effects w @ [ClipboardWrite X, TimerSet delay]
     \<and> map_option label (find_button r w3) = Some (js ''copy'')
     \<and> clipboard_pending w3 = clipboard_pending w
     \<and> timers w3 = timers w
     \<and> effects w3 = effects w2"
proof -
  let ?l = "if ok then js ''copied!'' else js ''failed''"
  have 1: "w1 = w\<lparr>clipboard_pending := clipboard_pending w @ [(r, X)],
                 effects := effects w @ [ClipboardWrite X]\<rparr>"
    using assms(1-3) by (simp add: w1_def copy_click_def emit_def)
  have 2: "w2 = (set_label r ?l w)\<lparr>timers := timers w @ [(delay, r)],
                 effects := effects w @ [ClipboardWrite X, TimerSet delay]\<rparr>"
    by (simp add: w2_def 1 clipboard_settled_def Let_def emit_def set_label_def delay_def)
  have 3: "w3 = (set_label r (js ''copy'') (set_label r ?l w))
                 \<lparr>effects := effects w @ [ClipboardWrite X, TimerSet delay]\<rparr>"
    by (simp add: w3_def 2 timer_fired_def set_label_def)
  have f: "find_button r (v\<lparr>timers := t, effects := e\<rparr>) = find_button r v" for v t e
    by (simp add: find_button_def)
  have g: "find_button r (v\<lparr>effects := e\<rparr>) = find_button r v" for v e
    by (simp add: find_button_def)
  have l2: "map_option label (find_button r w2) = Some ?l"
    unfolding 2 f find_button_set_label using assms(1) by simp
  have l3: "map_option label (find_button r w3) = Some (js ''copy'')"
    unfolding 3 g find_button_set_label using assms(1) by simp
  have s: "clipboard_pending (set_label r l v) = clipboard_pending v"
    "timers (set_label r l v) = timers v" for l v
    by (simp_all add: set_label_def)
  from 1 l2 l3 show ?thesis by (simp add: 2 3 s)
qed

theorem copy_click_cycle_witness:
  "find_button (3, 0) copy_page = Some print_button
   \<and> 0 < bindings print_button
   \<and> code_text print_button = Some (js ''print(1)'')
   \<and> copy_click (3, 0) copy_page =
       copy_page\<lparr>clipboard_pending := clipboard_pending copy_page @ [((3, 0), js ''print(1)'')],
                 effects := effects copy_page @ [ClipboardWrite (js ''print(1)'')]\<rparr>
   \<and> map_option label (find_button (3, 0)
         (clipboard_settled (length (clipboard_pending copy_page)) False
            (copy_click (3, 0) copy_page))) = Some (js ''failed'')
   \<and> timers (clipboard_settled (length (clipboard_pending copy_page)) False
         (copy_click (3, 0) copy_page)) = timers copy_page @ [(1200, (3, 0))]
   \<and> map_option label (find_button (3, 0)
         (timer_fired (length (timers copy_page))
            (clipboard_settled (length (clipboard_pending copy_page)) False
               (copy_click (3, 0) copy_page)))) = Some (js ''copy'')"
proof -
  have f: "find_button (3, 0) copy_page = Some print_button"
    by (simp add: copy_page_eq find_button_def print_button_def)
  have b: "0 < bindings print_button" by (simp add: print_button_def)
  have c: "code_text print_button = Some (js ''print(1)'')" by (simp add: print_button_def)
  note e = copy_click_cycle [OF f b c, of False, unfolded if_False]
  note e1 = e [THEN conjunct1]
  note e2 = e [THEN conjunct2, THEN conjunct1]
  note e4 = e [THEN conjunct2, THEN conjunct2, THEN conjunct2, THEN conjunct1]
  note e6 = e [THEN conjunct2, THEN conjunct2, THEN conjunct2, THEN conjunct2, THEN conjunct2,
               THEN conjunct1]
  from f b c e1 e2 e4 e6 show ?thesis by (intro conjI)
qed


section \<open>Properties of the post-processor\<close>

lemma no_straddle:
  assumes ub: "\<And>k. 0 < k \<Longrightarrow> k < length W \<Longrightarrow> \<not> prefix (drop k W) W"
      and ns: "\<not> sublist W u" and ne: "u \<noteq> []" and ps: "prefix W s \<or> s = []"
  shows "\<not> prefix W (u @ s)"
proof
  assume "prefix W (u @ s)"
  then consider "prefix W u" | us where "W = u @ us" "prefix us s"
    by (auto simp: prefix_append)
  then show False
  proof cases
    case 1
    with ns show False by auto
  next
    case 2
    from ns 2(1) have "us \<noteq> []" by auto
    with 2(1) ne have k: "0 < length u" "length u < length W" by auto
    from 2(1) have d: "drop (length u) W = us" by simp
    from ps \<open>us \<noteq> []\<close> 2(2) have "prefix W s" by auto
    with 2(2) have "prefix us W \<or> prefix W us" by (rule prefix_same_cases)
    moreover from k 2(1) have "\<not> prefix W us" by (auto dest: prefix_length_le)
    ultimately have "prefix us W" by blast
    with ub [OF k] d show False by simp
  qed
qed

lemma code_open_unbordered:
  "0 < k \<Longrightarrow> k < length code_open \<Longrightarrow> \<not> prefix (drop k code_open) code_open"
proof -
  assume "0 < k" "k < length code_open"
  then have "k \<in> {1, 2, 3, 4, 5, 6, 7, 8, 9}" by (auto simp: code_open_def js_def)
  then show ?thesis by (auto simp: code_open_def js_def)
qed

lemma code_close_unbordered:
  "0 < k \<Longrightarrow> k < length code_close \<Longrightarrow> \<not> prefix (drop k code_close) code_close"
proof -
  have l: "length code_close = 13" by (simp add: code_close_def js_def)
  assume "0 < k" "k < length code_close"
  with l have "k = 1 \<or> k = 2 \<or> k = 3 \<or> k = 4 \<or> k = 5 \<or> k = 6 \<or> k = 7 \<or> k = 8 \<or> k = 9
      \<or> k = 10 \<or> k = 11 \<or> k = 12" by arith
  then show ?thesis by (auto simp: code_close_def js_def)
qed

lemma match_body_exact:
  "\<not> sublist code_close code \<Longrightarrow> match_body (code @ code_close @ s) = Some (code, s)"
proof (induction code)
  case Nil
  obtain c cs where e: "code_close @ s = c # cs"
    by (cases "code_close @ s") (simp_all add: code_close_def js_def)
  have "drop (length code_close) (code_close @ s) = s" by simp
  moreover have "prefix code_close (code_close @ s)" by simp
  ultimately show ?case by (simp add: e del: drop_append)
next
  case (Cons c code)
  from Cons.prems have n: "\<not> sublist code_close code" by (simp add: sublist_Cons_right)
  have "\<not> prefix code_close ((c # code) @ code_close @ s)"
    by (rule no_straddle [OF code_close_unbordered Cons.prems]) simp_all
  then show ?case using Cons.IH [OF n] by simp
qed

lemma match_lang_exact:
  "list_all (\<lambda>c. \<not> is_line_terminator c \<and> c \<noteq> 0x22) l \<Longrightarrow> match_body r = Some m \<Longrightarrow>
   match_lang (l @ lang_close @ r) = Some m"
proof (induction l)
  case Nil
  have e: "lang_close @ r = 0x22 # 0x3E # r" by (simp add: lang_close_def js_def)
  have p: "prefix lang_close (0x22 # 0x3E # r)" "length lang_close = 2"
    by (simp_all add: lang_close_def js_def)
  from Nil show ?case by (simp add: e p)
next
  case (Cons c l)
  then have c: "c \<noteq> 0x22" "\<not> is_line_terminator c" by simp_all
  then have "\<not> prefix lang_close (c # l @ lang_close @ r)"
    by (simp add: lang_close_def js_def)
  with Cons c show ?case by simp
qed

lemma match_at_block:
  assumes "well_formed_block b"
  shows "match_at (block_html b @ s) = Some (block_code b, s)"
proof -
  from assms have mb: "match_body (block_code b @ code_close @ s) = Some (block_code b, s)"
    by (simp add: well_formed_block_def match_body_exact)
  have p: "prefix code_open (block_html b @ s)" by (simp add: block_html_def)
  show ?thesis
  proof (cases "block_lang b")
    case None
    then have r: "drop (length code_open) (block_html b @ s)
        = 0x3E # block_code b @ code_close @ s"
      by (simp add: block_html_def js_def)
    have "\<not> prefix lang_open (0x3E # block_code b @ code_close @ s)"
      by (simp add: lang_open_def js_def)
    with p r mb show ?thesis by (simp add: match_at_def Let_def del: drop_append)
  next
    case (Some l)
    then have r: "drop (length code_open) (block_html b @ s)
        = lang_open @ l @ lang_close @ block_code b @ code_close @ s"
      by (simp add: block_html_def js_def lang_close_def)
    from Some assms have "list_all (\<lambda>c. \<not> is_line_terminator c \<and> c \<noteq> 0x22) l"
      by (simp add: well_formed_block_def)
    then have "match_lang (l @ lang_close @ block_code b @ code_close @ s)
        = Some (block_code b, s)"
      using mb by (rule match_lang_exact)
    moreover have "prefix lang_open (lang_open @ l @ lang_close @ block_code b @ code_close @ s)"
      "drop (length lang_open) (lang_open @ l @ lang_close @ block_code b @ code_close @ s)
        = l @ lang_close @ block_code b @ code_close @ s"
      by simp_all
    ultimately show ?thesis using p r by (simp add: match_at_def Let_def del: drop_append)
  qed
qed

lemma match_at_no_open: "\<not> prefix code_open s \<Longrightarrow> match_at s = None"
  by (simp add: match_at_def)

lemma wrap_text:
  "\<not> sublist code_open t \<Longrightarrow> prefix code_open s \<or> s = [] \<Longrightarrow>
   wrap_code_blocks (t @ s) = t @ wrap_code_blocks s"
proof (induction t)
  case Nil
  then show ?case by simp
next
  case (Cons c t)
  from Cons.prems(1) have n: "\<not> sublist code_open t" by (simp add: sublist_Cons_right)
  have "\<not> prefix code_open ((c # t) @ s)"
    by (rule no_straddle [OF code_open_unbordered Cons.prems(1) _ Cons.prems(2)]) simp_all
  then have "match_at (c # t @ s) = None" by (simp add: match_at_no_open)
  with Cons.IH [OF n Cons.prems(2)] show ?case by simp
qed

lemma wrap_block:
  assumes "well_formed_block b"
  shows "wrap_code_blocks (block_html b @ s) = code_wrapper (block_code b) @ wrap_code_blocks s"
proof -
  obtain c cs where e: "block_html b @ s = c # cs"
    by (cases "block_html b @ s") (simp_all add: block_html_def code_open_def js_def)
  from match_at_block [OF assms, of s] show ?thesis by (simp add: e)
qed

lemma wrap_doc:
  "well_formed_doc t bs \<Longrightarrow> wrap_code_blocks (doc_html t bs) = doc_wrapped t bs"
proof (induction bs arbitrary: t)
  case Nil
  then have "\<not> sublist code_open t" by (simp add: well_formed_doc_def)
  from wrap_text [OF this, of "[]"] show ?case by simp
next
  case (Cons x bs)
  obtain b t' where x: "x = (b, t')" by (cases x)
  from Cons.prems x have wf: "\<not> sublist code_open t" "well_formed_block b" "well_formed_doc t' bs"
    by (simp_all add: well_formed_doc_def)
  have "prefix code_open (block_html b @ doc_html t' bs)" by (simp add: block_html_def)
  with wrap_text [OF wf(1), of "block_html b @ doc_html t' bs"]
  have "wrap_code_blocks (doc_html t (x # bs))
      = t @ wrap_code_blocks (block_html b @ doc_html t' bs)"
    by (simp add: x)
  also have "\<dots> = t @ code_wrapper (block_code b) @ wrap_code_blocks (doc_html t' bs)"
    by (simp add: wrap_block [OF wf(2)])
  also have "\<dots> = doc_wrapped t (x # bs)" by (simp add: x Cons.IH [OF wf(3)])
  finally show ?case .
qed

lemma strip_prefix_append: "strip_prefix (p @ q) (p @ r) = strip_prefix q r"
  by (induction p) simp_all

lemma strip_prefix_same: "strip_prefix p (p @ r) = Some r"
  using strip_prefix_append [of p "[]" r] by simp

lemma laid_out_step:
  assumes "list_all is_layout ws" and "e \<noteq> []" and "\<not> is_layout (hd e)"
  shows "laid_out (e # ps) (ws @ e @ r) = laid_out ps r"
proof -
  from assms(1) have "dropWhile is_layout (ws @ e @ r) = dropWhile is_layout (e @ r)"
    by (simp add: dropWhile_append2 list_all_iff)
  also from assms(2,3) have "\<dots> = e @ r" by (cases e) simp_all
  finally show ?thesis by (simp add: strip_prefix_same)
qed

lemma wrapper_laid_out: "laid_out (spec_wrapper_elements code) (code_wrapper code)"
proof -
  define ws1 ws2 ws4 :: jstring where "ws1 = 0x0A # replicate 16 0x20"
    and "ws2 = 0x0A # replicate 20 0x20" and "ws4 = 0x0A # replicate 12 0x20"
  define e1 e2 e3 e4 :: jstring where \<open>e1 = js ''<div class="code-wrapper">''\<close>
    and \<open>e2 = js ''<button class="copy-btn">copy</button>''\<close>
    and \<open>e3 = js ''<pre><code>'' @ code @ js ''</code></pre>''\<close>
    and \<open>e4 = js ''</div>''\<close>
  have l: "list_all is_layout ws1" "list_all is_layout ws2" "list_all is_layout ws4"
    by (simp_all add: ws1_def ws2_def ws4_def is_layout_def list_all_iff)
  have n: "e1 \<noteq> []" "e2 \<noteq> []" "e3 \<noteq> []" "e4 \<noteq> []"
    "\<not> is_layout (hd e1)" "\<not> is_layout (hd e2)" "\<not> is_layout (hd e3)" "\<not> is_layout (hd e4)"
    by (simp_all add: e1_def e2_def e3_def e4_def js_def is_layout_def)
  have e: "code_wrapper code = ws1 @ e1 @ ws2 @ e2 @ ws2 @ e3 @ ws1 @ e4 @ ws4"
    by (simp add: code_wrapper_def ws1_def ws2_def ws4_def e1_def e2_def e3_def e4_def js_def
          eval_nat_numeral)
  have s: "spec_wrapper_elements code = [e1, e2, e3, e4]"
    by (simp add: spec_wrapper_elements_def e1_def e2_def e3_def e4_def)
  show ?thesis
    unfolding e s by (simp add: laid_out_step l n del: laid_out.simps(2))
qed

lemma lf_block_html:
  \<open>block_html python_lf_block =
     js ''<pre><code class="language-python">print(1)'' @ [0x0A] @ js ''</code></pre>''\<close>
  by (simp add: block_html_def python_lf_block_def code_open_def lang_open_def code_close_def
        js_def)

lemma commonmark_fenced:
  "marked commonmark_env fenced_reply = doc_html [] [(python_lf_block, [0x0A])]"
  by (simp add: commonmark_env_def)

lemma lf_doc_well_formed: "well_formed_doc [] [(python_lf_block, [0x0A])]"
  by (simp add: well_formed_doc_def well_formed_block_def python_lf_block_def js_def
        code_open_def code_close_def is_line_terminator_def sublist_Cons_right)

lemma render_fenced:
  "render_reply commonmark_env fenced_reply = code_wrapper (js ''print(1)'' @ [0x0A]) @ [0x0A]"
  using wrap_doc [OF lf_doc_well_formed]
  by (simp add: render_reply_def commonmark_fenced python_lf_block_def)

lemma first_code_fenced:
  "first_code_text (code_wrapper (js ''print(1)'' @ [0x0A]) @ [0x0A]) = Some (js ''print(1)'' @ [0x0A])"
  by (simp add: code_wrapper_def plain_code_open_def code_close_def js_def)

lemma count_fenced:
  "occurrences copy_button_html (code_wrapper (js ''print(1)'' @ [0x0A]) @ [0x0A]) = 1"
  by (simp add: copy_button_html_def code_wrapper_def js_def)

text \<open>
  C5, as the code has it.  In HTML made of text without \<^verbatim>\<open><pre><code\<close> and of code
  blocks \<^verbatim>\<open><pre><code>\<close>, with or without a language class, the post-processor
  replaces every block by the wrapper around the block's content and leaves the
  text between blocks as it is.  The wrapper around any content is, white space
  apart, the wrapper element holding the button labelled \<^verbatim>\<open>copy\<close> and then
  \<^verbatim>\<open><pre><code>\<close> without class around that content, unchanged.  So a reply
  that the converter renders as one block yields one copy button, next to a code
  element holding exactly what the converter put into the block.
\<close>

theorem code_blocks_wrapped:
  assumes "well_formed_doc t bs"
  shows "wrap_code_blocks (doc_html t bs) = doc_wrapped t bs
     \<and> laid_out (spec_wrapper_elements code) (code_wrapper code)
     \<and> (marked E reply = doc_html t bs \<longrightarrow> render_reply E reply = doc_wrapped t bs)
     \<and> (bs = [(b, t')] \<longrightarrow>
          wrap_code_blocks (t @ block_html b @ t') = t @ code_wrapper (block_code b) @ t')"
proof -
  note m = wrap_doc [OF assms]
  have "bs = [(b, t')] \<longrightarrow>
          wrap_code_blocks (t @ block_html b @ t') = t @ code_wrapper (block_code b) @ t'"
    using m by auto
  with m wrapper_laid_out [of code] show ?thesis by (simp add: render_reply_def)
qed

theorem code_blocks_wrapped_witness:
  "well_formed_doc [] [(python_lf_block, [0x0A])]
   \<and> marked commonmark_env fenced_reply = doc_html [] [(python_lf_block, [0x0A])]
   \<and> render_reply commonmark_env fenced_reply = doc_wrapped [] [(python_lf_block, [0x0A])]
   \<and> doc_wrapped [] [(python_lf_block, [0x0A])]
       = code_wrapper (js ''print(1)'' @ [0x0A]) @ [0x0A]
   \<and> laid_out (spec_wrapper_elements (js ''print(1)'' @ [0x0A]))
        (code_wrapper (js ''print(1)'' @ [0x0A]))
   \<and> occurrences copy_button_html (doc_wrapped [] [(python_lf_block, [0x0A])]) = 1
   \<and> first_code_text (doc_wrapped [] [(python_lf_block, [0x0A])])
       = Some (js ''print(1)'' @ [0x0A])"
proof -
  note e = code_blocks_wrapped [OF lf_doc_well_formed,
      where E = commonmark_env and reply = fenced_reply
        and code = "js ''print(1)'' @ [0x0A]"]
  from e commonmark_fenced
  have r: "render_reply commonmark_env fenced_reply = doc_wrapped [] [(python_lf_block, [0x0A])]"
    by blast
  from e have l: "laid_out (spec_wrapper_elements (js ''print(1)'' @ [0x0A]))
        (code_wrapper (js ''print(1)'' @ [0x0A]))"
    by blast
  have d: "doc_wrapped [] [(python_lf_block, [0x0A])]
       = code_wrapper (js ''print(1)'' @ [0x0A]) @ [0x0A]"
    by (simp add: python_lf_block_def)
  from lf_doc_well_formed commonmark_fenced r d l show ?thesis
    by (simp only: d count_fenced first_code_fenced)
qed

text \<open>
  C5 as stated fails for the reply \<open>fenced_reply\<close> and a converter that follows
  CommonMark: the one code element of the rendered HTML holds \<^verbatim>\<open>print(1)\<close> and a
  line feed, not \<^verbatim>\<open>print(1)\<close> alone.
\<close>

theorem trailing_newline_counterexample:
  "first_code_text (render_reply commonmark_env fenced_reply) = Some (js ''print(1)'' @ [0x0A])
   \<and> first_code_text (render_reply commonmark_env fenced_reply) \<noteq> Some (js ''print(1)'')
   \<and> occurrences copy_button_html (render_reply commonmark_env fenced_reply) = 1"
  by (simp add: render_fenced first_code_fenced count_fenced)

end
